theory Spec2Isabelle
  imports Complex_Main
begin

section \<open>A single-session WhatsApp gateway\<close>

text \<open>
  The repository holds two variants of one Express server: \<^verbatim>\<open>src/server.js\<close> and
  \<^verbatim>\<open>src/unnamed/part_000\<close>. Both keep three module-level variables
  (\<^verbatim>\<open>client\<close>, \<^verbatim>\<open>sessionStatus\<close>, \<^verbatim>\<open>qrCodeData\<close>), register the same four event
  handlers on a \<^verbatim>\<open>whatsapp-web.js\<close> client and serve the same four routes. Where the two
  files have the same text a single definition embeds both; where they differ the
  definition without suffix embeds \<^verbatim>\<open>part_000\<close> and the one ending in \<open>_server\<close>
  embeds \<^verbatim>\<open>server.js\<close>.

  JavaScript runs every handler to its first \<^verbatim>\<open>await\<close> without interruption, so a
  handler is a function from the state before to the state after. What happens
  later (a promise of the client settling, the callback of \<^verbatim>\<open>qrcode.toDataURL\<close>) is a
  handler of its own that is applied to whatever the state is by then.
\<close>

subsection \<open>Values thrown\<close>

text \<open>
  An exception is an \<^verbatim>\<open>Error\<close> object; the program reads nothing of it but
  \<^verbatim>\<open>.message\<close>. \<open>TypeError\<close> is what the language itself raises, \<open>Failure\<close> what a
  collaborator (the client, the QR renderer) rejects with.
\<close>

datatype exn = TypeError string | Failure string

fun message :: "exn \<Rightarrow> string" where
  "message (TypeError m) = m"
| "message (Failure m) = m"

subsection \<open>The module state\<close>

datatype status = DISCONNECTED | CONNECTING | CONNECTED | ERROR

text \<open>
  Every \<^verbatim>\<open>new Client(...)\<close> makes a fresh instance; instances are numbered in the order
  of their creation. \<open>calls\<close> lists the methods the program has invoked on instances,
  oldest first.
\<close>

datatype call = Initialize nat | Logout nat | Destroy nat

record state =
  client :: "nat option"
  sessionStatus :: status
  qrCodeData :: "string option"
  created :: nat
  calls :: "call list"

text \<open>
  \<^verbatim>\<open>let client; let sessionStatus = 'DISCONNECTED'; let qrCodeData = null;\<close>
\<close>

definition initial :: state where
  "initial = \<lparr>client = None, sessionStatus = DISCONNECTED, qrCodeData = None,
              created = 0, calls = []\<rparr>"

text \<open>
  An instance is live from its creation until \<^verbatim>\<open>destroy()\<close> or \<^verbatim>\<open>logout()\<close> has been
  called on it.
\<close>

definition live :: "state \<Rightarrow> nat list" where
  "live s = filter (\<lambda>i. Destroy i \<notin> set (calls s) \<and> Logout i \<notin> set (calls s))
              [0..<created s]"

subsection \<open>HTTP replies\<close>

datatype body =
    StatusText string
  | StatusReport status "string option"
  | Outcome bool string

text \<open>
  \<open>Reply code body\<close> is \<^verbatim>\<open>res.status(code).json(body)\<close>. \<open>Unanswered e\<close> is an \<^verbatim>\<open>async\<close>
  handler that throws \<open>e\<close> before it has written its reply: the route sends none
  (Express 4 does not observe the rejected promise and the request hangs; Express 5
  would answer it with an error status).
\<close>

datatype reply = Reply nat body | Unanswered exn

subsection \<open>\<^verbatim>\<open>initializeWhatsApp\<close>\<close>

text \<open>
  \<^verbatim>\<open>client = new Client({...})\<close> followed by the four \<^verbatim>\<open>client.on\<close> registrations.
\<close>

definition new_Client :: "state \<Rightarrow> state" where
  "new_Client s = s\<lparr>client := Some (created s), created := Suc (created s)\<rparr>"

text \<open>\<^verbatim>\<open>client.initialize()\<close>: the call itself; its rejection is handled below.\<close>

definition call_initialize :: "state \<Rightarrow> state" where
  "call_initialize s =
     (case client s of
        None \<Rightarrow> s
      | Some c \<Rightarrow> s\<lparr>calls := calls s @ [Initialize c]\<rparr>)"

text \<open>
  \<^verbatim>\<open>part_000\<close>, lines 17-83: the guard, then the status is set, then the client is
  made and started.
\<close>

definition initializeWhatsApp :: "state \<Rightarrow> state" where
  "initializeWhatsApp s =
     (if sessionStatus s = CONNECTING \<and> client s \<noteq> None then s
      else call_initialize (new_Client (s\<lparr>sessionStatus := CONNECTING\<rparr>)))"

text \<open>
  \<^verbatim>\<open>server.js\<close>, lines 18-78: no guard and no assignment to \<^verbatim>\<open>sessionStatus\<close>.
\<close>

definition initializeWhatsApp_server :: "state \<Rightarrow> state" where
  "initializeWhatsApp_server s = call_initialize (new_Client s)"

subsection \<open>Event handlers of the client\<close>

text \<open>
  The handlers are closures over the module variables, not over the instance that
  emits: \<^verbatim>\<open>client.destroy()\<close> in a handler addresses whatever \<^verbatim>\<open>client\<close> holds when the
  event arrives.

  \<^verbatim>\<open>client.on('qr', ...)\<close>: \<^verbatim>\<open>part_000\<close> only starts the rendering; \<^verbatim>\<open>server.js\<close> first sets
  \<^verbatim>\<open>sessionStatus = 'CONNECTING'\<close>.
\<close>

definition on_qr :: "state \<Rightarrow> state" where
  "on_qr s = s"

definition on_qr_server :: "state \<Rightarrow> state" where
  "on_qr_server s = s\<lparr>sessionStatus := CONNECTING\<rparr>"

text \<open>
  The callback \<^verbatim>\<open>(err, url) => {...}\<close> given to \<^verbatim>\<open>qrcode.toDataURL\<close>, the same in both
  files. \<open>Inl err\<close> is a failed rendering, \<open>Inr url\<close> the data URL.
\<close>

fun toDataURL_callback :: "exn + string \<Rightarrow> state \<Rightarrow> state" where
  "toDataURL_callback (Inl err) s = s\<lparr>sessionStatus := ERROR\<rparr>"
| "toDataURL_callback (Inr url) s = s\<lparr>qrCodeData := Some url\<rparr>"

text \<open>\<^verbatim>\<open>client.on('ready', ...)\<close>, the same in both files.\<close>

definition on_ready :: "state \<Rightarrow> state" where
  "on_ready s = s\<lparr>sessionStatus := CONNECTED, qrCodeData := None\<rparr>"

text \<open>
  \<^verbatim>\<open>client.on('disconnected', ...)\<close>. With \<^verbatim>\<open>client\<close> null the call \<^verbatim>\<open>client.destroy()\<close>
  throws a TypeError out of the handler, after the status has been written. The
  second component is that exception, if any.
\<close>

definition on_disconnected :: "state \<Rightarrow> state \<times> exn option" where
  "on_disconnected s =
     (let s1 = s\<lparr>sessionStatus := DISCONNECTED\<rparr> in
      case client s1 of
        None \<Rightarrow> (s1, Some (TypeError ''Cannot read properties of null (reading 'destroy')''))
      | Some c \<Rightarrow> (s1\<lparr>calls := calls s1 @ [Destroy c], qrCodeData := None\<rparr>, None))"

definition on_disconnected_server :: "state \<Rightarrow> state \<times> exn option" where
  "on_disconnected_server s =
     (let s1 = s\<lparr>sessionStatus := DISCONNECTED\<rparr> in
      case client s1 of
        None \<Rightarrow> (s1, Some (TypeError ''Cannot read properties of null (reading 'destroy')''))
      | Some c \<Rightarrow> (s1\<lparr>calls := calls s1 @ [Destroy c]\<rparr>, None))"

text \<open>\<^verbatim>\<open>client.on('auth_failure', ...)\<close>, the same in both files.\<close>

definition on_auth_failure :: "state \<Rightarrow> state" where
  "on_auth_failure s = s\<lparr>sessionStatus := ERROR\<rparr>"

text \<open>
  \<^verbatim>\<open>client.initialize().catch(err => {...})\<close>: the handler of a rejected start.
  \<^verbatim>\<open>part_000\<close> destroys what \<^verbatim>\<open>client\<close> holds; \<^verbatim>\<open>server.js\<close> only writes the status.
\<close>

definition on_initialize_rejected :: "exn \<Rightarrow> state \<Rightarrow> state" where
  "on_initialize_rejected err s =
     (let s1 = s\<lparr>sessionStatus := ERROR\<rparr> in
      case client s1 of
        None \<Rightarrow> s1
      | Some c \<Rightarrow> s1\<lparr>calls := calls s1 @ [Destroy c]\<rparr>)"

definition on_initialize_rejected_server :: "exn \<Rightarrow> state \<Rightarrow> state" where
  "on_initialize_rejected_server err s = s\<lparr>sessionStatus := ERROR\<rparr>"

subsection \<open>Routes\<close>

text \<open>\<^verbatim>\<open>GET /api/whatsapp/connect\<close>: the same text in both files, over each file's
  \<^verbatim>\<open>initializeWhatsApp\<close>.\<close>

definition connect :: "state \<Rightarrow> state \<times> reply" where
  "connect s =
     (if sessionStatus s = CONNECTED then (s, Reply 200 (StatusText ''Already connected''))
      else
        (if sessionStatus s = DISCONNECTED \<or> sessionStatus s = ERROR
         then initializeWhatsApp s else s,
         Reply 202 (StatusText ''Connection process initiated.'')))"

definition connect_server :: "state \<Rightarrow> state \<times> reply" where
  "connect_server s =
     (if sessionStatus s = CONNECTED then (s, Reply 200 (StatusText ''Already connected''))
      else
        (if sessionStatus s = DISCONNECTED \<or> sessionStatus s = ERROR
         then initializeWhatsApp_server s else s,
         Reply 202 (StatusText ''Connection process initiated.'')))"

text \<open>\<^verbatim>\<open>GET /api/whatsapp/status\<close>, the same in both files.\<close>

definition get_status :: "state \<Rightarrow> reply" where
  "get_status s = Reply 200 (StatusReport (sessionStatus s) (qrCodeData s))"

text \<open>
  \<^verbatim>\<open>POST /api/whatsapp/disconnect\<close> of \<^verbatim>\<open>part_000\<close>, lines 127-144. \<open>logout\<close> is how the
  promise of \<^verbatim>\<open>client.logout()\<close> settles (\<open>None\<close>: resolved, \<open>Some e\<close>: rejected with \<open>e\<close>);
  \<open>meanwhile\<close> is whatever other handlers do to the state while the route awaits it.
  Neither is consulted when the route does not call \<^verbatim>\<open>logout\<close>.

  The \<^verbatim>\<open>try\<close> block: the state it leaves, and the exception that ends it, if any.
\<close>

definition try_logout :: "exn option \<Rightarrow> (state \<Rightarrow> state) \<Rightarrow> state \<Rightarrow> state \<times> exn option" where
  "try_logout logout meanwhile s =
     (case (if sessionStatus s = CONNECTED then client s else None) of
        Some c \<Rightarrow> (meanwhile (s\<lparr>calls := calls s @ [Logout c]\<rparr>), logout)
      | None \<Rightarrow> (s, None))"

text \<open>
  The route: the \<^verbatim>\<open>catch\<close> clause logs the exception and drops it, and the \<^verbatim>\<open>finally\<close>
  clause runs on every path.
\<close>

definition disconnect :: "exn option \<Rightarrow> (state \<Rightarrow> state) \<Rightarrow> state \<Rightarrow> state \<times> reply" where
  "disconnect logout meanwhile s =
     (case try_logout logout meanwhile s of
        (s1, thrown) \<Rightarrow>
          (s1\<lparr>sessionStatus := DISCONNECTED, client := None, qrCodeData := None\<rparr>,
           Reply 200 (Outcome True ''Disconnection process finished.'')))"

text \<open>
  \<^verbatim>\<open>POST /api/whatsapp/disconnect\<close> of \<^verbatim>\<open>server.js\<close>, lines 138-147: no \<^verbatim>\<open>try\<close>. A rejected
  \<^verbatim>\<open>logout\<close> ends the handler before it replies, and the connected branch writes no
  module variable.
\<close>

definition disconnect_server :: "exn option \<Rightarrow> (state \<Rightarrow> state) \<Rightarrow> state \<Rightarrow> state \<times> reply" where
  "disconnect_server logout meanwhile s =
     (case (if sessionStatus s = CONNECTED then client s else None) of
        Some c \<Rightarrow>
          (let s1 = meanwhile (s\<lparr>calls := calls s @ [Logout c]\<rparr>) in
           case logout of
             Some e \<Rightarrow> (s1, Unanswered e)
           | None \<Rightarrow> (s1, Reply 200 (Outcome True ''Successfully disconnected.'')))
      | None \<Rightarrow>
          (s\<lparr>sessionStatus := DISCONNECTED\<rparr>,
           Reply 200 (Outcome True ''Client was not connected or already disconnected.'')))"

section \<open>Bulk sending\<close>

subsection \<open>Request bodies\<close>

text \<open>
  \<^verbatim>\<open>express.json()\<close> hands the routes what \<^verbatim>\<open>JSON.parse\<close> made of the body, so an item
  of \<^verbatim>\<open>messages\<close> is any JSON value; reading a missing property adds \<^verbatim>\<open>undefined\<close>. A
  number is kept as the text JavaScript prints for it, the only thing the program
  does with one. An object is the list of its own properties.
\<close>

datatype jsval =
    JUndefined
  | JNull
  | JBool bool
  | JNum string
  | JStr string
  | JArr "jsval list"
  | JObj "(string \<times> jsval) list"

text \<open>
  \<^verbatim>\<open>v.k\<close> for the property names the program reads (\<^verbatim>\<open>messages\<close>, \<^verbatim>\<open>phone\<close>,
  \<^verbatim>\<open>imageBase64\<close>, \<^verbatim>\<open>message\<close>), none of which a prototype defines: a TypeError on
  \<^verbatim>\<open>null\<close> and \<^verbatim>\<open>undefined\<close>, the own property of an object, \<^verbatim>\<open>undefined\<close> otherwise.
\<close>

fun get_prop :: "jsval \<Rightarrow> string \<Rightarrow> exn + jsval" where
  "get_prop JUndefined k =
     Inl (TypeError (''Cannot read properties of undefined (reading '' @ [CHR 0x27] @ k @ [CHR 0x27] @ '')''))"
| "get_prop JNull k =
     Inl (TypeError (''Cannot read properties of null (reading '' @ [CHR 0x27] @ k @ [CHR 0x27] @ '')''))"
| "get_prop (JObj kvs) k = Inr (case map_of kvs k of None \<Rightarrow> JUndefined | Some v \<Rightarrow> v)"
| "get_prop v k = Inr JUndefined"

definition is_digit :: "char \<Rightarrow> bool" where
  "is_digit c = (c \<in> set ''0123456789'')"

text \<open>
  \<^verbatim>\<open>v.replace(/\D/g, '')\<close>: only a string has a \<^verbatim>\<open>replace\<close> method (a property of that name
  on a parsed object is data, not a function).
\<close>

fun replace_non_digits :: "jsval \<Rightarrow> exn + string" where
  "replace_non_digits (JStr s) = Inr (filter is_digit s)"
| "replace_non_digits JUndefined =
     Inl (TypeError ''Cannot read properties of undefined (reading 'replace')'')"
| "replace_non_digits JNull =
     Inl (TypeError ''Cannot read properties of null (reading 'replace')'')"
| "replace_non_digits v = Inl (TypeError ''item.phone.replace is not a function'')"

text \<open>
  The conversion a template literal \<^verbatim>\<open>`${v}`\<close> applies to \<open>v\<close>. An array prints its
  elements joined by commas, \<^verbatim>\<open>null\<close> and \<^verbatim>\<open>undefined\<close> elements as nothing. An object
  is converted by its \<^verbatim>\<open>toString\<close> method: the inherited one prints
  \<^verbatim>\<open>[object Object]\<close>, but an own property \<^verbatim>\<open>toString\<close> of a parsed object hides it and is
  not callable, \<^verbatim>\<open>valueOf\<close> (own: not callable; inherited: returns the object) gives no
  primitive either, and the conversion throws a TypeError.
\<close>

fun to_string :: "jsval \<Rightarrow> exn + string"
  and join_elements :: "jsval list \<Rightarrow> exn + string" where
  "to_string JUndefined = Inr ''undefined''"
| "to_string JNull = Inr ''null''"
| "to_string (JBool b) = Inr (if b then ''true'' else ''false'')"
| "to_string (JNum n) = Inr n"
| "to_string (JStr s) = Inr s"
| "to_string (JArr vs) = join_elements vs"
| "to_string (JObj kvs) =
     (if ''toString'' \<in> set (map fst kvs)
      then Inl (TypeError ''Cannot convert object to primitive value'')
      else Inr ''[object Object]'')"
| "join_elements [] = Inr []"
| "join_elements (v # vs) =
     (case (if v = JUndefined \<or> v = JNull then Inr [] else to_string v) of
        Inl e \<Rightarrow> Inl e
      | Inr x \<Rightarrow>
          (if vs = [] then Inr x
           else case join_elements vs of
                  Inl e \<Rightarrow> Inl e
                | Inr y \<Rightarrow> Inr (x @ '','' @ y)))"

subsection \<open>\<^verbatim>\<open>POST /api/whatsapp/send-bulk\<close>\<close>

text \<open>
  The route, the same in both files: \<open>body\<close> is \<^verbatim>\<open>req.body\<close>. The third component is the
  array handed to the background loop, \<open>None\<close> when no loop is started. Only an array
  passes \<^verbatim>\<open>!messages || !Array.isArray(messages)\<close>.
\<close>

definition send_bulk :: "jsval \<Rightarrow> state \<Rightarrow> state \<times> reply \<times> jsval list option" where
  "send_bulk body s =
     (if sessionStatus s \<noteq> CONNECTED
      then (s, Reply 400 (Outcome False ''WhatsApp client is not connected.''), None)
      else case get_prop body ''messages'' of
             Inl e \<Rightarrow> (s, Unanswered e, None)
           | Inr (JArr messages) \<Rightarrow>
               (s, Reply 200 (Outcome True ''Bulk sending process started in the background.''),
                Some messages)
           | Inr v \<Rightarrow>
               (s, Reply 400 (Outcome False ''Invalid request: \"messages\" array not found.''),
                None))"

subsection \<open>The background loop\<close>

text \<open>
  What the loop meets while it runs, by the position \<open>k\<close> of the item in the array
  (from 0):
  \<^item> \<open>client_at k\<close>: what the module variable \<^verbatim>\<open>client\<close> holds when the send of item
    \<open>k\<close> is evaluated (other handlers run while the loop awaits);
  \<^item> \<open>newMessageMedia\<close>: the constructor \<^verbatim>\<open>new MessageMedia(mimetype, data, filename)\<close>
    of \<^verbatim>\<open>whatsapp-web.js\<close>;
  \<^item> \<open>sendMessage k chatId media caption\<close>: how the promise of
    \<^verbatim>\<open>client.sendMessage(chatId, media, {caption})\<close> settles for item \<open>k\<close>;
  \<^item> \<open>random k\<close>: what \<^verbatim>\<open>Math.random()\<close> returns after item \<open>k\<close> has been sent;
  \<^item> \<open>rounded\<close>: the rounding of a real number to the double that represents it.
    JavaScript numbers are doubles, so \<^verbatim>\<open>a * b\<close> is \<open>rounded (a * b)\<close> and \<^verbatim>\<open>a + b\<close> is
    \<open>rounded (a + b)\<close>.
\<close>

record 'm world =
  client_at :: "nat \<Rightarrow> nat option"
  newMessageMedia :: "string \<Rightarrow> jsval \<Rightarrow> string \<Rightarrow> exn + 'm"
  sendMessage :: "nat \<Rightarrow> string \<Rightarrow> 'm \<Rightarrow> jsval \<Rightarrow> exn option"
  random :: "nat \<Rightarrow> real"
  rounded :: "real \<Rightarrow> real"

text \<open>
  What the loop does, in order: \<open>Send c chatId media caption\<close> is a call of
  \<^verbatim>\<open>sendMessage\<close> on instance \<open>c\<close>, \<open>Log\<close> and \<open>LogError\<close> are \<^verbatim>\<open>console.log\<close> and
  \<^verbatim>\<open>console.error\<close>, \<open>Timeout ms\<close> is an awaited \<^verbatim>\<open>setTimeout(resolve, ms)\<close>.
\<close>

datatype 'm event =
    Send nat string 'm jsval
  | Log string
  | LogError string string
  | Timeout real

text \<open>
  \<^verbatim>\<open>`${item.phone}`\<close>, as the two log lines print the destination.
\<close>

definition phone_text :: "jsval \<Rightarrow> exn + string" where
  "phone_text item =
     (case get_prop item ''phone'' of
        Inl e \<Rightarrow> Inl e
      | Inr phone \<Rightarrow> to_string phone)"

text \<open>
  \<^verbatim>\<open>const chatId = `${item.phone.replace(/\D/g, '')}@c.us`\<close>
\<close>

definition chatId :: "jsval \<Rightarrow> exn + string" where
  "chatId item =
     (case get_prop item ''phone'' of
        Inl e \<Rightarrow> Inl e
      | Inr phone \<Rightarrow>
          (case replace_non_digits phone of
             Inl e \<Rightarrow> Inl e
           | Inr digits \<Rightarrow> Inr (digits @ ''@c.us'')))"

text \<open>
  \<^verbatim>\<open>const media = new MessageMedia('image/png', item.imageBase64, 'personalized-image.png')\<close>
\<close>

definition media :: "'m world \<Rightarrow> jsval \<Rightarrow> exn + 'm" where
  "media w item =
     (case get_prop item ''imageBase64'' of
        Inl e \<Rightarrow> Inl e
      | Inr data \<Rightarrow> newMessageMedia w ''image/png'' data ''personalized-image.png'')"

text \<open>
  The awaited send of item \<open>k\<close>, the success line and the awaited delay
  \<^verbatim>\<open>setTimeout(resolve, Math.random() * 2000 + 1000)\<close>: the events, and the exception
  that ends the \<^verbatim>\<open>try\<close> block, if any. The delay is the last statement of the block,
  reached only when nothing before it has thrown.
\<close>

definition send_then_pause ::
  "'m world \<Rightarrow> nat \<Rightarrow> jsval \<Rightarrow> string \<Rightarrow> 'm \<Rightarrow> 'm event list \<times> exn option" where
  "send_then_pause w k item cid m =
     (case client_at w k of
        None \<Rightarrow> ([], Some (TypeError ''Cannot read properties of null (reading 'sendMessage')''))
      | Some c \<Rightarrow>
          (case get_prop item ''message'' of
             Inl e \<Rightarrow> ([], Some e)
           | Inr caption \<Rightarrow>
               (case sendMessage w k cid m caption of
                  Some e \<Rightarrow> ([Send c cid m caption], Some e)
                | None \<Rightarrow>
                    (case phone_text item of
                       Inl e \<Rightarrow> ([Send c cid m caption], Some e)
                     | Inr p \<Rightarrow>
                         ([Send c cid m caption,
                           Log (''Message successfully sent to '' @ p),
                           Timeout (rounded w (rounded w (random w k * 2000) + 1000))],
                          None)))))"

text \<open>The \<^verbatim>\<open>try\<close> block for item \<open>k\<close>.\<close>

definition try_block :: "'m world \<Rightarrow> nat \<Rightarrow> jsval \<Rightarrow> 'm event list \<times> exn option" where
  "try_block w k item =
     (case chatId item of
        Inl e \<Rightarrow> ([], Some e)
      | Inr cid \<Rightarrow>
          (case media w item of
             Inl e \<Rightarrow> ([], Some e)
           | Inr m \<Rightarrow> send_then_pause w k item cid m))"

text \<open>
  The \<^verbatim>\<open>catch\<close> block: it evaluates \<^verbatim>\<open>`Failed to send message to ${item.phone}:`\<close> and
  \<^verbatim>\<open>error.message\<close> for \<^verbatim>\<open>console.error\<close>. \<open>Inl\<close> is an exception raised by that
  evaluation, which nothing catches.
\<close>

definition catch_block :: "jsval \<Rightarrow> exn \<Rightarrow> exn + 'm event" where
  "catch_block item err =
     (case phone_text item of
        Inl e \<Rightarrow> Inl e
      | Inr p \<Rightarrow> Inr (LogError (''Failed to send message to '' @ p @ '':'') (message err)))"

text \<open>
  One pass of \<^verbatim>\<open>for (const item of messages)\<close>: the events, and the exception that
  leaves the loop body uncaught.
\<close>

definition iteration :: "'m world \<Rightarrow> nat \<Rightarrow> jsval \<Rightarrow> 'm event list \<times> exn option" where
  "iteration w k item =
     (case try_block w k item of
        (evs, None) \<Rightarrow> (evs, None)
      | (evs, Some err) \<Rightarrow>
          (case catch_block item err of
             Inl e \<Rightarrow> (evs, Some e)
           | Inr l \<Rightarrow> (evs @ [l], None)))"

text \<open>
  The \<^verbatim>\<open>async\<close> function started after the reply, from item \<open>k\<close> on: all events it
  performs, and \<open>Some e\<close> when its promise is rejected with \<open>e\<close> (an unhandled
  rejection: the remaining items are never processed).
\<close>

fun drain :: "'m world \<Rightarrow> nat \<Rightarrow> jsval list \<Rightarrow> 'm event list \<times> exn option" where
  "drain w k [] = ([Log ''Bulk sending process finished.''], None)"
| "drain w k (item # rest) =
     (case iteration w k item of
        (evs, Some e) \<Rightarrow> (evs, Some e)
      | (evs, None) \<Rightarrow> (evs @ fst (drain w (Suc k) rest), snd (drain w (Suc k) rest)))"

subsection \<open>Sample inputs\<close>

text \<open>
  A well-formed item \<^verbatim>\<open>{phone, message, imageBase64}\<close>, and worlds in which the
  client is instance 0 throughout, the media constructor keeps the data it is
  given, \<^verbatim>\<open>Math.random()\<close> returns one half, the arithmetic of the delay is exact
  (1000 and 2000 are doubles) and the sends settle as named.
\<close>

definition send_item :: "string \<Rightarrow> jsval" where
  "send_item p =
     JObj [(''phone'', JStr p), (''message'', JStr ''Hello''),
           (''imageBase64'', JStr ''iVBORw0KGgo='')]"

definition steady :: "(nat \<Rightarrow> exn option) \<Rightarrow> jsval world" where
  "steady outcome =
     \<lparr>client_at = (\<lambda>k. Some 0), newMessageMedia = (\<lambda>mimetype data filename. Inr data),
      sendMessage = (\<lambda>k cid m caption. outcome k), random = (\<lambda>k. 1 / 2),
      rounded = (\<lambda>x. x)\<rparr>"

definition all_sent :: "jsval world" where
  "all_sent = steady (\<lambda>k. None)"

definition first_rejected :: "jsval world" where
  "first_rejected = steady (\<lambda>k. if k = 0 then Some (Failure ''Evaluation failed'') else None)"

definition second_rejected :: "jsval world" where
  "second_rejected = steady (\<lambda>k. if k = 1 then Some (Failure ''Evaluation failed'') else None)"

section \<open>Properties of the session\<close>

subsection \<open>Connect\<close>

lemma connect_idle:
  "sessionStatus s = CONNECTING \<or> sessionStatus s = CONNECTED \<Longrightarrow>
   fst (connect s) = s \<and> fst (connect_server s) = s"
  by (auto simp: connect_def connect_server_def)

text \<open>
  In \<^verbatim>\<open>part_000\<close> a connect from \<open>DISCONNECTED\<close> or \<open>ERROR\<close> writes \<open>CONNECTING\<close>, makes
  exactly one instance, keeps it in \<^verbatim>\<open>client\<close>, starts it and replies 202.
\<close>

lemma connect_starts:
  assumes "sessionStatus s = DISCONNECTED \<or> sessionStatus s = ERROR"
  shows "sessionStatus (fst (connect s)) = CONNECTING
       \<and> client (fst (connect s)) = Some (created s)
       \<and> created (fst (connect s)) = Suc (created s)
       \<and> calls (fst (connect s)) = calls s @ [Initialize (created s)]
       \<and> snd (connect s) = Reply 202 (StatusText ''Connection process initiated.'')"
  using assms
  by (auto simp: connect_def initializeWhatsApp_def new_Client_def call_initialize_def)

text \<open>
  So in \<^verbatim>\<open>part_000\<close> the connect calls that follow, with no event in between, find
  \<open>CONNECTING\<close> and make nothing.
\<close>

lemma connect_again:
  assumes "sessionStatus s = DISCONNECTED \<or> sessionStatus s = ERROR"
  shows "((fst \<circ> connect) ^^ n) (fst (connect s)) = fst (connect s)"
proof (induction n)
  case 0
  show ?case by simp
next
  case (Suc n)
  from assms have "sessionStatus (fst (connect s)) = CONNECTING"
    using connect_starts by blast
  with Suc show ?case by (simp add: connect_idle)
qed




text \<open>
  C5. Two connect calls in a row from the initial state. In \<^verbatim>\<open>part_000\<close> the first
  leaves \<open>CONNECTING\<close> and the second makes nothing: one instance. In \<^verbatim>\<open>server.js\<close>
  \<^verbatim>\<open>initializeWhatsApp\<close> does not write \<^verbatim>\<open>sessionStatus\<close> (only the \<^verbatim>\<open>qr\<close> event does, later),
  so the second call still finds \<open>DISCONNECTED\<close> and makes and starts a second
  instance while the first is live.
\<close>

theorem second_connect_server_spawns_second_client:
  "sessionStatus (fst (connect initial)) = CONNECTING
   \<and> fst (connect (fst (connect initial)))
       = \<lparr>client = Some 0, sessionStatus = CONNECTING, qrCodeData = None, created = 1,
          calls = [Initialize 0]\<rparr>
   \<and> sessionStatus (fst (connect_server initial)) = DISCONNECTED
   \<and> fst (connect_server (fst (connect_server initial)))
       = \<lparr>client = Some 1, sessionStatus = DISCONNECTED, qrCodeData = None, created = 2,
          calls = [Initialize 0, Initialize 1]\<rparr>
   \<and> live (fst (connect_server (fst (connect_server initial)))) = [0, 1]"
  by (simp add: connect_def connect_server_def initial_def initializeWhatsApp_def
        initializeWhatsApp_server_def new_Client_def call_initialize_def live_def)

subsection \<open>A rejected start\<close>

text \<open>
  In \<^verbatim>\<open>part_000\<close> the handler of a rejected \<^verbatim>\<open>initialize()\<close> writes \<open>ERROR\<close> and destroys the
  instance \<^verbatim>\<open>client\<close> holds; it leaves the variable and the token as they are. The
  connect route has replied before (lemma \<open>connect_starts\<close>: 202, whatever happens to
  the start), and the next poll reports \<open>ERROR\<close>.
\<close>

lemma initialize_rejected_destroys:
  "sessionStatus (on_initialize_rejected err s) = ERROR
   \<and> client (on_initialize_rejected err s) = client s
   \<and> qrCodeData (on_initialize_rejected err s) = qrCodeData s
   \<and> calls (on_initialize_rejected err s)
       = calls s @ (case client s of None \<Rightarrow> [] | Some c \<Rightarrow> [Destroy c])
   \<and> get_status (on_initialize_rejected err s) = Reply 200 (StatusReport ERROR (qrCodeData s))"
  by (simp add: on_initialize_rejected_def get_status_def split: option.splits)

text \<open>
  C8. Connect from the initial state, then the start is rejected with \<open>err\<close>. Both
  files have replied 202 and end in \<open>ERROR\<close>, which the poll reports. \<^verbatim>\<open>part_000\<close> has
  called \<^verbatim>\<open>destroy()\<close> on the instance; \<^verbatim>\<open>server.js\<close> has not, and its instance stays
  live.
\<close>

theorem initialize_rejected_server_keeps_instance:
  "snd (connect initial) = Reply 202 (StatusText ''Connection process initiated.'')
   \<and> on_initialize_rejected err (fst (connect initial))
       = \<lparr>client = Some 0, sessionStatus = ERROR, qrCodeData = None, created = 1,
          calls = [Initialize 0, Destroy 0]\<rparr>
   \<and> live (on_initialize_rejected err (fst (connect initial))) = []
   \<and> snd (connect_server initial) = Reply 202 (StatusText ''Connection process initiated.'')
   \<and> on_initialize_rejected_server err (fst (connect_server initial))
       = \<lparr>client = Some 0, sessionStatus = ERROR, qrCodeData = None, created = 1,
          calls = [Initialize 0]\<rparr>
   \<and> live (on_initialize_rejected_server err (fst (connect_server initial))) = [0]
   \<and> get_status (on_initialize_rejected_server err (fst (connect_server initial)))
       = Reply 200 (StatusReport ERROR None)"
  by (simp add: connect_def connect_server_def initial_def initializeWhatsApp_def
        initializeWhatsApp_server_def new_Client_def call_initialize_def live_def
        on_initialize_rejected_def on_initialize_rejected_server_def get_status_def)

subsection \<open>Disconnect\<close>

text \<open>
  C1. In \<^verbatim>\<open>part_000\<close> the \<^verbatim>\<open>finally\<close> clause makes the outcome the same on every path:
  whatever the state \<open>s\<close>, however \<^verbatim>\<open>logout()\<close> settles and whatever happens while it is
  awaited, the route ends with \<open>DISCONNECTED\<close>, no token, no client handle and the
  reply 200. \<^verbatim>\<open>server.js\<close> does not: from the connected state (connect, then \<^verbatim>\<open>ready\<close>) a
  rejected \<^verbatim>\<open>logout()\<close> leaves the request unanswered and the state \<open>CONNECTED\<close>, and a
  resolved one replies 200 but leaves \<open>CONNECTED\<close> and the handle too.
\<close>

theorem disconnect_server_does_not_reset:
  "sessionStatus (fst (disconnect logout meanwhile s)) = DISCONNECTED
   \<and> qrCodeData (fst (disconnect logout meanwhile s)) = None
   \<and> client (fst (disconnect logout meanwhile s)) = None
   \<and> snd (disconnect logout meanwhile s)
       = Reply 200 (Outcome True ''Disconnection process finished.'')
   \<and> disconnect_server (Some (Failure ''Protocol error'')) id
         (on_ready (fst (connect_server initial)))
       = (\<lparr>client = Some 0, sessionStatus = CONNECTED, qrCodeData = None, created = 1,
           calls = [Initialize 0, Logout 0]\<rparr>,
          Unanswered (Failure ''Protocol error''))
   \<and> disconnect_server None id (on_ready (fst (connect_server initial)))
       = (\<lparr>client = Some 0, sessionStatus = CONNECTED, qrCodeData = None, created = 1,
           calls = [Initialize 0, Logout 0]\<rparr>,
          Reply 200 (Outcome True ''Successfully disconnected.''))"
  by (simp add: disconnect_def disconnect_server_def connect_server_def initial_def
        on_ready_def initializeWhatsApp_server_def new_Client_def call_initialize_def
        split: prod.splits)

subsection \<open>The login token\<close>

text \<open>
  C7, as the code has it. The token is null at the start and is set to null by the
  \<^verbatim>\<open>ready\<close> handler (both files, with the move to \<open>CONNECTED\<close>), by the disconnect
  route of \<^verbatim>\<open>part_000\<close> (with the move to \<open>DISCONNECTED\<close>) and by the \<^verbatim>\<open>disconnected\<close>
  handler of \<^verbatim>\<open>part_000\<close> when \<^verbatim>\<open>client\<close> holds an instance.
\<close>

theorem token_cleared_by_transitions:
  "qrCodeData initial = None
   \<and> sessionStatus (on_ready s) = CONNECTED \<and> qrCodeData (on_ready s) = None
   \<and> sessionStatus (fst (disconnect logout meanwhile s)) = DISCONNECTED
   \<and> qrCodeData (fst (disconnect logout meanwhile s)) = None
   \<and> (client s \<noteq> None \<longrightarrow>
        sessionStatus (fst (on_disconnected s)) = DISCONNECTED
        \<and> qrCodeData (fst (on_disconnected s)) = None)"
  by (auto simp: initial_def on_ready_def disconnect_def on_disconnected_def
        split: prod.splits)

theorem token_cleared_by_transitions_witness:
  "client (toDataURL_callback (Inr ''data:image/png;base64,iVBORw0KGgo='')
             (on_qr (fst (connect initial)))) \<noteq> None
   \<and> qrCodeData (toDataURL_callback (Inr ''data:image/png;base64,iVBORw0KGgo='')
             (on_qr (fst (connect initial)))) = Some ''data:image/png;base64,iVBORw0KGgo=''
   \<and> qrCodeData (on_ready (toDataURL_callback (Inr ''data:image/png;base64,iVBORw0KGgo='')
             (on_qr (fst (connect initial))))) = None
   \<and> qrCodeData (fst (disconnect None id
          (toDataURL_callback (Inr ''data:image/png;base64,iVBORw0KGgo='')
             (on_qr (fst (connect initial)))))) = None
   \<and> sessionStatus (fst (on_disconnected
          (toDataURL_callback (Inr ''data:image/png;base64,iVBORw0KGgo='')
             (on_qr (fst (connect initial)))))) = DISCONNECTED
   \<and> qrCodeData (fst (on_disconnected
          (toDataURL_callback (Inr ''data:image/png;base64,iVBORw0KGgo='')
             (on_qr (fst (connect initial)))))) = None"
proof -
  have h: "client (toDataURL_callback (Inr ''data:image/png;base64,iVBORw0KGgo='')
             (on_qr (fst (connect initial)))) \<noteq> None"
    by (simp add: on_qr_def connect_def initial_def initializeWhatsApp_def new_Client_def
          call_initialize_def)
  have q: "qrCodeData (toDataURL_callback (Inr ''data:image/png;base64,iVBORw0KGgo='')
             (on_qr (fst (connect initial)))) = Some ''data:image/png;base64,iVBORw0KGgo=''"
    by simp
  show ?thesis
    using h q token_cleared_by_transitions
      [of "toDataURL_callback (Inr ''data:image/png;base64,iVBORw0KGgo='')
             (on_qr (fst (connect initial)))" None id]
    by blast
qed

text \<open>
  C7 as stated fails: after connect, a QR code rendered and an authentication
  failure, \<^verbatim>\<open>part_000\<close> is in \<open>ERROR\<close>, not in \<open>CONNECTING\<close>, and holds the token.
\<close>

theorem token_kept_in_error_state:
  "sessionStatus (on_auth_failure (toDataURL_callback (Inr ''data:image/png;base64,iVBORw0KGgo='')
       (on_qr (fst (connect initial))))) = ERROR
   \<and> qrCodeData (on_auth_failure (toDataURL_callback (Inr ''data:image/png;base64,iVBORw0KGgo='')
       (on_qr (fst (connect initial))))) = Some ''data:image/png;base64,iVBORw0KGgo=''"
  by (simp add: on_auth_failure_def)

text \<open>
  C10. The \<^verbatim>\<open>auth_failure\<close> handler (the same in both files) writes \<^verbatim>\<open>sessionStatus\<close>
  and nothing else: the login token, the client handle and the instances are as
  before, so the status poll that follows reports \<open>ERROR\<close> together with the token
  that was stored. Both files reach such a state: connect, a QR code rendered to
  \<open>url\<close>, then an authentication failure.
\<close>

theorem auth_failure_frame:
  "sessionStatus (on_auth_failure s) = ERROR
   \<and> qrCodeData (on_auth_failure s) = qrCodeData s
   \<and> client (on_auth_failure s) = client s
   \<and> created (on_auth_failure s) = created s
   \<and> calls (on_auth_failure s) = calls s
   \<and> get_status (on_auth_failure s) = Reply 200 (StatusReport ERROR (qrCodeData s))
   \<and> get_status (on_auth_failure (toDataURL_callback (Inr url) (on_qr (fst (connect initial)))))
       = Reply 200 (StatusReport ERROR (Some url))
   \<and> get_status (on_auth_failure
         (toDataURL_callback (Inr url) (on_qr_server (fst (connect_server initial)))))
       = Reply 200 (StatusReport ERROR (Some url))"
  by (simp add: on_auth_failure_def get_status_def on_qr_def on_qr_server_def)

section \<open>Properties of bulk sending\<close>

text \<open>
  C6. While \<^verbatim>\<open>sessionStatus\<close> is not \<open>CONNECTED\<close> the route (the same in both files)
  replies 400 with its first statement, whatever the body: it starts no loop, so
  nothing is sent, and the state is the one it found.
\<close>

theorem send_bulk_requires_connected:
  "sessionStatus s \<noteq> CONNECTED \<Longrightarrow>
   send_bulk body s
     = (s, Reply 400 (Outcome False ''WhatsApp client is not connected.''), None)"
  by (simp add: send_bulk_def)

theorem send_bulk_requires_connected_witness:
  "sessionStatus initial \<noteq> CONNECTED
   \<and> send_bulk (JObj [(''messages'', JArr [send_item ''555-0101''])]) initial
       = (initial, Reply 400 (Outcome False ''WhatsApp client is not connected.''), None)"
proof -
  have h: "sessionStatus initial \<noteq> CONNECTED" by (simp add: initial_def)
  show ?thesis
    using h send_bulk_requires_connected [OF h] by simp
qed

subsection \<open>What ends an iteration, and what ends the loop\<close>

lemmas loop_defs =
  iteration_def try_block_def catch_block_def chatId_def phone_text_def media_def
  send_then_pause_def

text \<open>
  The \<^verbatim>\<open>catch\<close> block prints \<^verbatim>\<open>item.phone\<close>. When that can be printed, whatever the \<^verbatim>\<open>try\<close>
  block threw is logged and the iteration ends normally.
\<close>

lemma iteration_printable:
  "phone_text item = Inr p \<Longrightarrow> snd (iteration w k item) = None"
  by (auto simp: iteration_def catch_block_def split: prod.splits option.splits sum.splits)

lemma to_string_fails:
  "to_string v = Inl e \<Longrightarrow> \<exists>e'. replace_non_digits v = Inl e'"
  by (cases v) auto

text \<open>
  When it cannot, the \<^verbatim>\<open>try\<close> block has thrown before any send (a value that does
  not print is no string, so \<^verbatim>\<open>replace\<close> fails), and the \<^verbatim>\<open>catch\<close> block throws in turn.
\<close>

lemma iteration_unprintable:
  assumes "phone_text item = Inl e"
  shows "iteration w k item = ([], Some e)"
proof (cases "get_prop item ''phone''")
  case (Inl e')
  with assms show ?thesis by (simp add: loop_defs)
next
  case (Inr phone)
  with assms have "to_string phone = Inl e" by (simp add: phone_text_def)
  then obtain e' where "replace_non_digits phone = Inl e'"
    using to_string_fails by blast
  with Inr assms show ?thesis
    by (simp add: iteration_def try_block_def catch_block_def chatId_def)
qed

text \<open>
  An item that is an object prints its destination when \<^verbatim>\<open>phone\<close> is missing or is
  \<^verbatim>\<open>null\<close>, a boolean, a number or a string.
\<close>

lemma phone_text_of_object:
  assumes "get_prop (JObj props) ''phone'' = Inr v"
    and "v = JUndefined \<or> v = JNull \<or> (\<exists>b. v = JBool b) \<or> (\<exists>n. v = JNum n) \<or> (\<exists>t. v = JStr t)"
  shows "\<exists>p. phone_text (JObj props) = Inr p"
  using assms by (auto simp: phone_text_def)

text \<open>
  An item whose \<^verbatim>\<open>phone\<close> is a string is sent to the digits of that string, however
  the send then settles, provided the media object can be built and \<^verbatim>\<open>client\<close> holds
  an instance; and its iteration ends normally.
\<close>

lemma string_phone_is_sent:
  assumes "get_prop item ''phone'' = Inr (JStr p)"
    and "media w item = Inr m"
    and "client_at w k = Some c"
  shows "\<exists>caption evs. fst (iteration w k item)
             = Send c (filter is_digit p @ ''@c.us'') m caption # evs
         \<and> snd (iteration w k item) = None"
proof -
  from assms(1) obtain caption where "get_prop item ''message'' = Inr caption"
    by (cases item) auto
  with assms show ?thesis
    by (cases "sendMessage w k (filter is_digit p @ ''@c.us'') m caption")
       (simp_all add: iteration_def try_block_def catch_block_def chatId_def phone_text_def
          send_then_pause_def)
qed

text \<open>
  A batch in which every destination prints runs to its end, whatever the sends,
  the constructor and the client handle do.
\<close>

lemma drain_completes:
  "list_all (\<lambda>item. \<not> isl (phone_text item)) items \<Longrightarrow> snd (drain w k items) = None"
proof (induction items arbitrary: k)
  case Nil
  show ?case by simp
next
  case (Cons item items)
  then obtain p where "phone_text item = Inr p"
    by (cases "phone_text item") auto
  then have "snd (iteration w k item) = None"
    by (rule iteration_printable)
  with Cons show ?case
    by (cases "iteration w k item") auto
qed

lemma drain_aborts:
  "phone_text item = Inl e \<Longrightarrow> drain w k (item # rest) = ([], Some e)"
  by (simp add: iteration_unprintable)

text \<open>
  A loop that runs to its end performs the events of its iterations, in the order
  of the array, then the closing log line.
\<close>

lemma drain_events:
  "snd (drain w k items) = None \<Longrightarrow>
   fst (drain w k items) =
     concat (map (\<lambda>(i, item). fst (iteration w i item)) (zip [k..<k + length items] items))
     @ [Log ''Bulk sending process finished.'']"
proof (induction items arbitrary: k)
  case Nil
  show ?case by simp
next
  case (Cons item items)
  from Cons.prems have it: "snd (iteration w k item) = None"
    and rest: "snd (drain w (Suc k) items) = None"
    by (auto split: prod.splits option.splits)
  have "[k..<k + length (item # items)] = k # [Suc k..<Suc k + length items]"
    by (simp add: upt_rec)
  with Cons.IH [OF rest] it show ?case
    by (cases "iteration w k item") auto
qed

subsection \<open>Failure isolation\<close>

text \<open>
  C2. The batch of the claim, three well-formed items of which the second send is
  rejected, goes as the claim says: the rejection is logged and the third item is
  sent. But not every failure of an item is survived. For an item that is \<^verbatim>\<open>null\<close>
  the read \<^verbatim>\<open>item.phone\<close> throws in the \<^verbatim>\<open>try\<close> block and again in the \<^verbatim>\<open>catch\<close> block, where
  the log line is built; the second TypeError leaves the loop, so the items after
  it are never processed and the closing line is never logged.
\<close>

theorem null_item_aborts_batch:
  "drain second_rejected 0
      [send_item ''+1 (555) 0100'', send_item ''555-0101'', send_item ''5550102'']
     = ([Send 0 ''15550100@c.us'' (JStr ''iVBORw0KGgo='') (JStr ''Hello''),
         Log ''Message successfully sent to +1 (555) 0100'', Timeout 2000,
         Send 0 ''5550101@c.us'' (JStr ''iVBORw0KGgo='') (JStr ''Hello''),
         LogError ''Failed to send message to 555-0101:'' ''Evaluation failed'',
         Send 0 ''5550102@c.us'' (JStr ''iVBORw0KGgo='') (JStr ''Hello''),
         Log ''Message successfully sent to 5550102'', Timeout 2000,
         Log ''Bulk sending process finished.''], None)
   \<and> drain w k (JNull # rest)
     = ([], Some (TypeError ''Cannot read properties of null (reading 'phone')''))"
  by (simp add: loop_defs send_item_def second_rejected_def steady_def is_digit_def)

text \<open>
  C9. An item that is an object whose \<^verbatim>\<open>phone\<close> is an object with an own property
  \<^verbatim>\<open>toString\<close>, as in \<^verbatim>\<open>{"phone": {"toString": 1}}\<close>: \<^verbatim>\<open>replace\<close> is not a function of it, the
  TypeError is caught, and the \<^verbatim>\<open>catch\<close> block throws while it prints \<^verbatim>\<open>item.phone\<close>
  into the log line. The loop ends there, whatever follows in the array.
\<close>

theorem unprintable_phone_aborts_batch:
  "drain w k (JObj ((''phone'', JObj [(''toString'', v)]) # props) # rest)
     = ([], Some (TypeError ''Cannot convert object to primitive value''))"
  by (simp add: loop_defs)

subsection \<open>Pacing\<close>

text \<open>
  The delay is computed in doubles. Rounding to the nearest double never reverses
  the order of two numbers and leaves a number that is a double as it is; 0, 1000,
  2000 and 3000 are doubles. With \<^verbatim>\<open>Math.random()\<close> between 0 and 1 that keeps the
  delay between 1000 and 3000.
\<close>

lemma delay_bounds:
  assumes "0 \<le> r" and "r \<le> 1" and "mono f"
    and "f 0 = 0" and "f 1000 = 1000" and "f 2000 = 2000" and "f 3000 = (3000 :: real)"
  shows "1000 \<le> f (f (r * 2000) + 1000) \<and> f (f (r * 2000) + 1000) \<le> 3000"
proof -
  from assms(1,2) have "0 \<le> r * 2000" and "r * 2000 \<le> 2000"
    by simp_all
  with assms(3) have "f 0 \<le> f (r * 2000)" and "f (r * 2000) \<le> f 2000"
    by (simp_all add: monoD)
  with assms(4,6) have "1000 \<le> f (r * 2000) + 1000" and "f (r * 2000) + 1000 \<le> 3000"
    by simp_all
  with assms(3) have "f 1000 \<le> f (f (r * 2000) + 1000)"
    and "f (f (r * 2000) + 1000) \<le> f 3000"
    by (simp_all add: monoD)
  with assms(5,7) show ?thesis by simp
qed

text \<open>
  C3, as the code has it. \<^verbatim>\<open>Math.random()\<close> returns a number from 0 up to, not
  including, 1. When the \<^verbatim>\<open>try\<close> block of an item completes, the loop has sent the
  message, logged it and then waited \<^verbatim>\<open>Math.random() * 2000 + 1000\<close> milliseconds, at
  least 1000 and at most 3000, before it turns to the items that follow. When the
  \<^verbatim>\<open>try\<close> block throws, nothing the loop does for the item is a wait, and what it
  does next follows at once: after the error line of the \<^verbatim>\<open>catch\<close> block that is the
  processing of the items that follow.
\<close>

theorem pause_follows_success_only:
  assumes "0 \<le> random w k" and "random w k < 1"
    and "mono (rounded w)"
    and "rounded w 0 = 0" and "rounded w 1000 = 1000"
    and "rounded w 2000 = 2000" and "rounded w 3000 = 3000"
  shows "(snd (try_block w k item) = None \<longrightarrow>
            (\<exists>c cid m caption p d. fst (drain w k (item # rest)) =
               [Send c cid m caption, Log (''Message successfully sent to '' @ p),
                Timeout d] @ fst (drain w (Suc k) rest)
               \<and> d = rounded w (rounded w (random w k * 2000) + 1000)
               \<and> 1000 \<le> d \<and> d \<le> 3000))
       \<and> (snd (try_block w k item) \<noteq> None \<longrightarrow>
            (\<forall>d. Timeout d \<notin> set (fst (iteration w k item)))
            \<and> fst (drain w k (item # rest)) =
                fst (iteration w k item)
                @ (if snd (iteration w k item) = None then fst (drain w (Suc k) rest) else [])
            \<and> (snd (iteration w k item) = None \<longrightarrow>
                 (\<exists>text detail. last (fst (iteration w k item)) = LogError text detail)))"
proof (intro conjI impI)
  assume ok: "snd (try_block w k item) = None"
  then obtain c cid m caption p where
    "try_block w k item =
       ([Send c cid m caption, Log (''Message successfully sent to '' @ p),
         Timeout (rounded w (rounded w (random w k * 2000) + 1000))], None)"
    by (auto simp: try_block_def send_then_pause_def split: option.splits sum.splits)
  then have events: "fst (drain w k (item # rest)) =
       [Send c cid m caption, Log (''Message successfully sent to '' @ p),
        Timeout (rounded w (rounded w (random w k * 2000) + 1000))]
       @ fst (drain w (Suc k) rest)"
    by (simp add: iteration_def)
  from assms have "1000 \<le> rounded w (rounded w (random w k * 2000) + 1000)
      \<and> rounded w (rounded w (random w k * 2000) + 1000) \<le> 3000"
    by (intro delay_bounds) simp_all
  with events show "\<exists>c cid m caption p d. fst (drain w k (item # rest)) =
       [Send c cid m caption, Log (''Message successfully sent to '' @ p), Timeout d]
       @ fst (drain w (Suc k) rest)
       \<and> d = rounded w (rounded w (random w k * 2000) + 1000) \<and> 1000 \<le> d \<and> d \<le> 3000"
    by blast
next
  assume thrown: "snd (try_block w k item) \<noteq> None"
  then show "\<forall>d. Timeout d \<notin> set (fst (iteration w k item))"
    by (auto simp: iteration_def try_block_def catch_block_def send_then_pause_def
             split: prod.splits option.splits sum.splits)
next
  show "fst (drain w k (item # rest)) =
      fst (iteration w k item)
      @ (if snd (iteration w k item) = None then fst (drain w (Suc k) rest) else [])"
    by (cases "iteration w k item") auto
next
  assume thrown: "snd (try_block w k item) \<noteq> None"
    and caught: "snd (iteration w k item) = None"
  then show "\<exists>text detail. last (fst (iteration w k item)) = LogError text detail"
    by (auto simp: iteration_def catch_block_def split: prod.splits option.splits sum.splits)
qed

theorem pause_follows_success_only_witness:
  "0 \<le> random first_rejected 1 \<and> random first_rejected 1 < 1
   \<and> mono (rounded first_rejected)
   \<and> rounded first_rejected 0 = 0 \<and> rounded first_rejected 1000 = 1000
   \<and> rounded first_rejected 2000 = 2000 \<and> rounded first_rejected 3000 = 3000
   \<and> snd (try_block first_rejected 1 (send_item ''555-0101'')) = None
   \<and> (\<exists>c cid m caption p d.
         fst (drain first_rejected 1 [send_item ''555-0101'', send_item ''555-0102'']) =
           [Send c cid m caption, Log (''Message successfully sent to '' @ p), Timeout d]
           @ fst (drain first_rejected (Suc 1) [send_item ''555-0102''])
         \<and> d = rounded first_rejected (rounded first_rejected (random first_rejected 1 * 2000) + 1000)
         \<and> 1000 \<le> d \<and> d \<le> 3000)
   \<and> 0 \<le> random first_rejected 0 \<and> random first_rejected 0 < 1
   \<and> snd (try_block first_rejected 0 (send_item ''555-0100'')) \<noteq> None
   \<and> snd (iteration first_rejected 0 (send_item ''555-0100'')) = None
   \<and> (\<forall>d. Timeout d \<notin> set (fst (iteration first_rejected 0 (send_item ''555-0100''))))
   \<and> fst (drain first_rejected 0 [send_item ''555-0100'', send_item ''555-0101'']) =
       fst (iteration first_rejected 0 (send_item ''555-0100''))
       @ fst (drain first_rejected (Suc 0) [send_item ''555-0101''])
   \<and> (\<exists>text detail.
         last (fst (iteration first_rejected 0 (send_item ''555-0100''))) = LogError text detail)"
proof -
  have r0: "0 \<le> random first_rejected 0" "random first_rejected 0 < 1"
    and r1: "0 \<le> random first_rejected 1" "random first_rejected 1 < 1"
    and fl: "mono (rounded first_rejected)" "rounded first_rejected 0 = 0"
      "rounded first_rejected 1000 = 1000" "rounded first_rejected 2000 = 2000"
      "rounded first_rejected 3000 = 3000"
    by (simp_all add: first_rejected_def steady_def mono_def)
  have ok: "snd (try_block first_rejected 1 (send_item ''555-0101'')) = None"
    by (simp add: loop_defs send_item_def first_rejected_def steady_def)
  have thrown: "snd (try_block first_rejected 0 (send_item ''555-0100'')) \<noteq> None"
    by (simp add: loop_defs send_item_def first_rejected_def steady_def)
  have caught: "snd (iteration first_rejected 0 (send_item ''555-0100'')) = None"
    by (simp add: loop_defs send_item_def first_rejected_def steady_def)
  note sent = pause_follows_success_only
    [OF r1 fl, of "send_item ''555-0101''" "[send_item ''555-0102'']"]
  note failed = pause_follows_success_only
    [OF r0 fl, of "send_item ''555-0100''" "[send_item ''555-0101'']"]
  from sent ok have a: "\<exists>c cid m caption p d.
         fst (drain first_rejected 1 [send_item ''555-0101'', send_item ''555-0102'']) =
           [Send c cid m caption, Log (''Message successfully sent to '' @ p), Timeout d]
           @ fst (drain first_rejected (Suc 1) [send_item ''555-0102''])
         \<and> d = rounded first_rejected (rounded first_rejected (random first_rejected 1 * 2000) + 1000)
         \<and> 1000 \<le> d \<and> d \<le> 3000"
    by blast
  from failed thrown caught
  have b: "\<forall>d. Timeout d \<notin> set (fst (iteration first_rejected 0 (send_item ''555-0100'')))"
    and c: "fst (drain first_rejected 0 [send_item ''555-0100'', send_item ''555-0101'']) =
       fst (iteration first_rejected 0 (send_item ''555-0100''))
       @ fst (drain first_rejected (Suc 0) [send_item ''555-0101''])"
    and d: "\<exists>text detail.
         last (fst (iteration first_rejected 0 (send_item ''555-0100''))) = LogError text detail"
    by simp_all
  from r0 r1 fl ok thrown caught a b c d show ?thesis
    by blast
qed

text \<open>
  C3 as stated fails: in a batch of two well-formed items of which the first send
  is rejected, the second send follows the error line at once. The only wait is
  the one after the second, successful send.
\<close>

theorem no_pause_after_failed_send:
  "drain first_rejected 0 [send_item ''555-0100'', send_item ''555-0101'']
     = ([Send 0 ''5550100@c.us'' (JStr ''iVBORw0KGgo='') (JStr ''Hello''),
         LogError ''Failed to send message to 555-0100:'' ''Evaluation failed'',
         Send 0 ''5550101@c.us'' (JStr ''iVBORw0KGgo='') (JStr ''Hello''),
         Log ''Message successfully sent to 555-0101'', Timeout 2000,
         Log ''Bulk sending process finished.''], None)"
  by (simp add: loop_defs send_item_def first_rejected_def steady_def is_digit_def)

end
